theory Spec2Isabelle
  imports Complex_Main
begin

section \<open>Economy and progression state machine (store.ts)\<close>

text \<open>
  The store is a single object of type \<open>GameState\<close>; every action reads it with
  \<open>get()\<close> and writes a partial update with \<open>set(...)\<close>. Each action is modelled
  as a function from the state before to the state after (with the value the action
  returns, and the window events and timers it issues, where it has any).

  JavaScript numbers are modelled exactly. Counters that only ever hold integers
  (they start from integer literals and change by integer amounts: \<open>score\<close>,
  \<open>currency\<close>, \<open>lives\<close>, \<open>level\<close>, \<open>shieldCount\<close>, ...) are \<open>int\<close>;
  quantities that are scaled by fractions (\<open>speed\<close>, gem values, positions) are
  \<open>real\<close>, without the rounding of IEEE doubles. \<open>targetLevels\<close> is the one
  field that is set to \<open>Infinity\<close>, so it has a type of its own.

  \<open>GameStatus\<close>, \<open>GameMode\<close> and the constant \<open>RUN_SPEED_BASE\<close> come from
  \<open>types.ts\<close>; the enumerations are given by the members the code uses, and
  \<open>RUN_SPEED_BASE\<close> is a parameter of the actions that read it.
\<close>

datatype GameStatus = MENU | LEVEL_SELECT | PLAYING | SHOP | GAME_OVER | VICTORY

datatype GameMode = NORMAL | ASSIST | CHEAT

datatype LevelTarget = Finite int | Infinity

record GameState =
  status :: GameStatus
  gameMode :: GameMode
  targetLevels :: LevelTarget
  score :: int
  currency :: int
  lives :: int
  maxLives :: int
  speed :: real
  collectedLetters :: "int list"
  level :: int
  laneCount :: int
  gemsCollected :: int
  distance :: real
  hasDoubleJump :: bool
  hasImmortality :: bool
  isImmortalityActive :: bool
  isShopInvincible :: bool
  magnetLevel :: int
  shieldCount :: int
  hasTimeWarp :: bool
  isTimeWarpActive :: bool
  hasGemBooster :: bool
  hasLuckCharm :: bool
  hasSonicBlast :: bool
  lastSonicBlastTime :: int
  hasDrone :: bool
  hasRevive :: bool
  hasDiscount :: bool
  playerLane :: int
  showJumpAlert :: bool

text \<open>The timers an action can start, and what each does to the store when it fires.\<close>

datatype TimerAction = ClearImmortality | ClearShopInvincible | ClearTimeWarp

datatype StoreEffect =
    DispatchEvent string
  | SetTimeout TimerAction nat

fun fireTimer :: "TimerAction \<Rightarrow> GameState \<Rightarrow> GameState" where
  "fireTimer ClearImmortality s = s\<lparr>isImmortalityActive := False\<rparr>"
| "fireTimer ClearShopInvincible s = s\<lparr>isShopInvincible := False\<rparr>"
| "fireTimer ClearTimeWarp s = s\<lparr>isTimeWarpActive := False\<rparr>"

definition initialState :: GameState where
  "initialState = \<lparr>
     status = MENU, gameMode = NORMAL, targetLevels = Finite 5,
     score = 0, currency = 0, lives = 3, maxLives = 3, speed = 0,
     collectedLetters = [], level = 1, laneCount = 3, gemsCollected = 0, distance = 0,
     hasDoubleJump = False, hasImmortality = False, isImmortalityActive = False,
     isShopInvincible = False,
     magnetLevel = 0, shieldCount = 0, hasTimeWarp = False, isTimeWarpActive = False,
     hasGemBooster = False, hasLuckCharm = False, hasSonicBlast = False,
     lastSonicBlastTime = 0,
     hasDrone = False, hasRevive = False, hasDiscount = False,
     playerLane = 0, showJumpAlert = False \<rparr>"

definition selectMode :: "GameMode \<Rightarrow> GameState \<Rightarrow> GameState" where
  "selectMode mode s = s\<lparr>gameMode := mode, status := LEVEL_SELECT\<rparr>"

definition startGame :: "real \<Rightarrow> LevelTarget \<Rightarrow> GameState \<Rightarrow> GameState" where
  "startGame RUN_SPEED_BASE target s =
     (let isCheat = (gameMode s = CHEAT) in
      s\<lparr> status := PLAYING,
         targetLevels := target,
         score := 0,
         currency := (if isCheat then 9999999 else 0),
         lives := 3,
         maxLives := 3,
         speed := RUN_SPEED_BASE,
         collectedLetters := [],
         level := 1,
         laneCount := 3,
         gemsCollected := 0,
         distance := 0,
         hasDoubleJump := isCheat,
         hasImmortality := isCheat,
         isImmortalityActive := False,
         isShopInvincible := False,
         magnetLevel := (if isCheat then 5 else 0),
         shieldCount := (if isCheat then 3 else 0),
         hasTimeWarp := isCheat,
         isTimeWarpActive := False,
         hasGemBooster := isCheat,
         hasLuckCharm := isCheat,
         hasSonicBlast := isCheat,
         lastSonicBlastTime := 0,
         hasDrone := isCheat,
         hasRevive := isCheat,
         hasDiscount := isCheat,
         playerLane := 0,
         showJumpAlert := False \<rparr>)"

definition restartGame :: "real \<Rightarrow> GameState \<Rightarrow> GameState" where
  "restartGame RUN_SPEED_BASE s = startGame RUN_SPEED_BASE (targetLevels s) s"

text \<open>
  \<open>takeDamage\<close>: the guard, the shield, the life, the revive charge, the end of the
  run, in the order of the source. The revive branch dispatches the window event
  \<open>trigger-sonic-blast\<close> and starts a 3000 ms timer that clears the immortality flag.
\<close>

definition takeDamage :: "GameState \<Rightarrow> GameState \<times> StoreEffect list" where
  "takeDamage s =
     (if gameMode s = CHEAT \<or> isImmortalityActive s \<or> isShopInvincible s then (s, [])
      else if shieldCount s > 0 then (s\<lparr>shieldCount := shieldCount s - 1\<rparr>, [])
      else if lives s > 1 then (s\<lparr>lives := lives s - 1\<rparr>, [])
      else if hasRevive s then
        (s\<lparr>lives := maxLives s, hasRevive := False, isImmortalityActive := True\<rparr>,
         [DispatchEvent ''trigger-sonic-blast'', SetTimeout ClearImmortality 3000])
      else if targetLevels s = Infinity then
        (s\<lparr>lives := 0, status := VICTORY, speed := 0\<rparr>, [])
      else
        (s\<lparr>lives := 0, status := GAME_OVER, speed := 0\<rparr>, []))"

definition addScore :: "int \<Rightarrow> GameState \<Rightarrow> GameState" where
  "addScore amount s = s\<lparr>score := score s + amount\<rparr>"





definition setDistance :: "real \<Rightarrow> GameState \<Rightarrow> GameState" where
  "setDistance d s = s\<lparr>distance := d\<rparr>"

text \<open>
  \<open>advanceLevel\<close> and \<open>collectLetter\<close>. \<open>GEMINI_TARGET\<close> is the six-glyph array of
  the source; \<open>collectLetter\<close> only uses its length. \<open>level < targetLevels\<close> with
  \<open>targetLevels = Infinity\<close> is true for every level.
\<close>

definition GEMINI_TARGET :: "string list" where
  "GEMINI_TARGET = [''G'', ''E'', ''M'', ''I'', ''N'', ''I'']"

definition advanceLevel :: "real \<Rightarrow> GameState \<Rightarrow> GameState" where
  "advanceLevel RUN_SPEED_BASE s =
     s\<lparr> level := level s + 1,
        laneCount := min (laneCount s + 2) 9,
        status := PLAYING,
        speed := speed s + RUN_SPEED_BASE * (10 / 100),
        collectedLetters := [] \<rparr>"

fun belowTarget :: "int \<Rightarrow> LevelTarget \<Rightarrow> bool" where
  "belowTarget lvl Infinity = True"
| "belowTarget lvl (Finite n) = (lvl < n)"

definition collectLetter :: "real \<Rightarrow> int \<Rightarrow> GameState \<Rightarrow> GameState" where
  "collectLetter RUN_SPEED_BASE index s =
     (if index \<notin> set (collectedLetters s) then
        (let newLetters = collectedLetters s @ [index];
             nextSpeed = speed s + RUN_SPEED_BASE * (25 / 1000);
             s1 = s\<lparr>collectedLetters := newLetters, speed := nextSpeed\<rparr>
         in if length newLetters = length GEMINI_TARGET then
              (if targetLevels s = Infinity \<or> belowTarget (level s) (targetLevels s)
               then advanceLevel RUN_SPEED_BASE s1
               else s1\<lparr>status := VICTORY, score := score s1 + 10000\<rparr>)
            else s1)
      else s)"

text \<open>The shop: opening and closing, and the two ways of spending currency.\<close>

definition openShop :: "GameState \<Rightarrow> GameState" where
  "openShop s = s\<lparr>status := SHOP, isShopInvincible := True\<rparr>"

definition closeShop :: "GameState \<Rightarrow> GameState \<times> StoreEffect list" where
  "closeShop s =
     (s\<lparr>status := PLAYING, isShopInvincible := True\<rparr>, [SetTimeout ClearShopInvincible 3000])"

definition spendCurrency :: "int \<Rightarrow> GameState \<Rightarrow> GameState \<times> bool" where
  "spendCurrency amount s =
     (if currency s \<ge> amount then (s\<lparr>currency := currency s - amount\<rparr>, True)
      else (s, False))"

text \<open>
  \<open>buyItem(type, cost)\<close>. \<open>blocked\<close> is the chain of early \<open>return false\<close> for an
  item that is owned or at its cap; \<open>applyItem\<close> is the \<open>switch\<close>, which has no
  default case. The state values the switch reads were destructured before the
  debit, and the debit does not change them.
\<close>

definition blocked :: "string \<Rightarrow> GameState \<Rightarrow> bool" where
  "blocked ty s =
     ((ty = ''HEAL'' \<and> lives s \<ge> maxLives s) \<or>
      (ty = ''MAX_LIFE'' \<and> maxLives s \<ge> 10) \<or>
      (ty = ''SHIELD'' \<and> shieldCount s \<ge> 3) \<or>
      (ty = ''MAGNET'' \<and> magnetLevel s \<ge> 5) \<or>
      (ty = ''DOUBLE_JUMP'' \<and> hasDoubleJump s) \<or>
      (ty = ''IMMORTAL'' \<and> hasImmortality s) \<or>
      (ty = ''TIME_WARP'' \<and> hasTimeWarp s) \<or>
      (ty = ''GEM_BOOSTER'' \<and> hasGemBooster s) \<or>
      (ty = ''LUCK_CHARM'' \<and> hasLuckCharm s) \<or>
      (ty = ''SONIC_BLAST'' \<and> hasSonicBlast s) \<or>
      (ty = ''DRONE'' \<and> hasDrone s) \<or>
      (ty = ''REVIVE'' \<and> hasRevive s) \<or>
      (ty = ''DISCOUNT'' \<and> hasDiscount s))"

definition applyItem :: "string \<Rightarrow> GameState \<Rightarrow> GameState \<Rightarrow> GameState" where
  "applyItem ty s0 s =
     (if ty = ''DOUBLE_JUMP'' then s\<lparr>hasDoubleJump := True\<rparr>
      else if ty = ''MAX_LIFE'' then
        (if maxLives s0 < 10 then s\<lparr>maxLives := maxLives s0 + 1, lives := lives s0 + 1\<rparr> else s)
      else if ty = ''HEAL'' then s\<lparr>lives := min (lives s0 + 1) (maxLives s0)\<rparr>
      else if ty = ''IMMORTAL'' then s\<lparr>hasImmortality := True\<rparr>
      else if ty = ''MAGNET'' then s\<lparr>magnetLevel := min (magnetLevel s0 + 1) 5\<rparr>
      else if ty = ''SHIELD'' then s\<lparr>shieldCount := min (shieldCount s0 + 1) 3\<rparr>
      else if ty = ''TIME_WARP'' then s\<lparr>hasTimeWarp := True\<rparr>
      else if ty = ''GEM_BOOSTER'' then s\<lparr>hasGemBooster := True\<rparr>
      else if ty = ''LUCK_CHARM'' then s\<lparr>hasLuckCharm := True\<rparr>
      else if ty = ''SONIC_BLAST'' then s\<lparr>hasSonicBlast := True, lastSonicBlastTime := 0\<rparr>
      else if ty = ''DRONE'' then s\<lparr>hasDrone := True\<rparr>
      else if ty = ''REVIVE'' then s\<lparr>hasRevive := True\<rparr>
      else if ty = ''DISCOUNT'' then s\<lparr>hasDiscount := True\<rparr>
      else s)"

definition buyItem :: "string \<Rightarrow> int \<Rightarrow> GameState \<Rightarrow> GameState \<times> bool" where
  "buyItem ty cost s =
     (if ty = ''EXCHANGE'' then
        (if currency s > 0
         then (s\<lparr>score := score s + currency s * 100, currency := 0\<rparr>, True)
         else (s, False))
      else if blocked ty s then (s, False)
      else if currency s \<ge> cost then
        (applyItem ty s (s\<lparr>currency := currency s - cost\<rparr>), True)
      else (s, False))"

definition activateImmortality :: "GameState \<Rightarrow> GameState \<times> StoreEffect list" where
  "activateImmortality s =
     (if hasImmortality s \<and> \<not> isImmortalityActive s
      then (s\<lparr>isImmortalityActive := True\<rparr>, [SetTimeout ClearImmortality 5000])
      else (s, []))"

definition activateTimeWarp :: "GameState \<Rightarrow> GameState \<times> StoreEffect list" where
  "activateTimeWarp s =
     (if hasTimeWarp s \<and> \<not> isTimeWarpActive s
      then (s\<lparr>isTimeWarpActive := True\<rparr>, [SetTimeout ClearTimeWarp 5000])
      else (s, []))"

text \<open>\<open>triggerSonicBlast\<close> reads the clock; \<open>now\<close> is the value of \<open>Date.now()\<close>.\<close>

definition SONIC_BLAST_COOLDOWN :: int where
  "SONIC_BLAST_COOLDOWN = 15000"

definition triggerSonicBlast :: "int \<Rightarrow> GameState \<Rightarrow> GameState \<times> bool" where
  "triggerSonicBlast now s =
     (if hasSonicBlast s \<and> now - lastSonicBlastTime s > SONIC_BLAST_COOLDOWN
      then (s\<lparr>lastSonicBlastTime := now\<rparr>, True)
      else (s, False))"

definition setStatus :: "GameStatus \<Rightarrow> GameState \<Rightarrow> GameState" where
  "setStatus st s = s\<lparr>status := st\<rparr>"

definition setPlayerLane :: "int \<Rightarrow> GameState \<Rightarrow> GameState" where
  "setPlayerLane lane s = s\<lparr>playerLane := lane\<rparr>"

definition setShowJumpAlert :: "bool \<Rightarrow> GameState \<Rightarrow> GameState" where
  "setShowJumpAlert show s = (if showJumpAlert s \<noteq> show then s\<lparr>showJumpAlert := show\<rparr> else s)"

text \<open>
  The item identifiers the \<open>switch\<close> of \<open>buyItem\<close> has a case for, and sequences of
  \<open>buyItem\<close> and \<open>takeDamage\<close> calls on the store.
\<close>

definition itemIds :: "string list" where
  "itemIds = [''DOUBLE_JUMP'', ''MAX_LIFE'', ''HEAL'', ''IMMORTAL'', ''MAGNET'', ''SHIELD'',
              ''TIME_WARP'', ''GEM_BOOSTER'', ''LUCK_CHARM'', ''SONIC_BLAST'', ''DRONE'',
              ''REVIVE'', ''DISCOUNT'']"

datatype StoreCall = BuyItem string int | TakeDamage

fun call :: "StoreCall \<Rightarrow> GameState \<Rightarrow> GameState" where
  "call (BuyItem ty cost) s = fst (buyItem ty cost s)"
| "call TakeDamage s = fst (takeDamage s)"

fun calls :: "StoreCall list \<Rightarrow> GameState \<Rightarrow> GameState" where
  "calls [] s = s"
| "calls (c # cs) s = calls cs (call c s)"

definition inCaps :: "GameState \<Rightarrow> bool" where
  "inCaps s =
     (0 \<le> magnetLevel s \<and> magnetLevel s \<le> 5 \<and> 0 \<le> shieldCount s \<and> shieldCount s \<le> 3)"

section \<open>Entity registry and simulation tick (LevelManager.tsx)\<close>

text \<open>
  A \<open>GameObject\<close> has the fields the code reads and writes; \<open>position\<close> is the array
  \<open>[x, y, z]\<close>. Optional fields are options, except \<open>hasFired\<close>, which is only read
  through \<open>!obj.hasFired\<close>, so that absent and \<open>false\<close> are the same.

  \<open>LANE_WIDTH\<close>, \<open>SPAWN_DISTANCE\<close> and \<open>REMOVE_DISTANCE\<close> are constants of
  \<open>types.ts\<close>, taken as parameters. What a frame reads from outside the registry is
  collected in \<open>Frame\<close>: the elapsed time, the player's world position, the clock, the
  values of the component's refs, and the identifiers \<open>uuidv4()\<close> returns.

  Store actions and window events issued by the tick are returned as a list of
  \<open>TickEffect\<close>s, in the order in which the code issues them; their listeners are not
  run inside the pass.
\<close>

datatype ObjectType = OBSTACLE | GEM | LETTER | SHOP_PORTAL | ALIEN | MISSILE

record GameObject =
  id_obj :: string
  type_obj :: ObjectType
  position :: "real \<times> real \<times> real"
  active :: bool
  color :: "string option"
  points :: "real option"
  value_obj :: "string option"
  targetIndex :: "int option"
  hasFired :: bool

record TypesConsts =
  LANE_WIDTH :: real
  SPAWN_DISTANCE :: real
  REMOVE_DISTANCE :: real

record Frame =
  delta :: real
  playerPos :: "real \<times> real \<times> real"
  now :: int
  lastDroneFire :: int
  distanceTraveled :: real
  nextLetterDistance :: real
  uuidv4 :: "nat \<Rightarrow> string"

datatype TickEffect =
    PlayerHit
  | ParticleBurst "real \<times> real \<times> real" string "real option"
  | OpenShop
  | CollectGem real bool
  | PlayGemCollect
  | CollectLetter int
  | PlayLetterCollect
  | SetShowJumpAlert bool

definition OBSTACLE_HEIGHT :: real where
  "OBSTACLE_HEIGHT = 1.6"

definition MISSILE_SPEED :: real where
  "MISSILE_SPEED = 30"

definition posX :: "GameObject \<Rightarrow> real" where
  "posX obj = fst (position obj)"

definition posY :: "GameObject \<Rightarrow> real" where
  "posY obj = fst (snd (position obj))"

definition posZ :: "GameObject \<Rightarrow> real" where
  "posZ obj = snd (snd (position obj))"

definition playerPosX :: "Frame \<Rightarrow> real" where
  "playerPosX fr = fst (playerPos fr)"

definition playerPosY :: "Frame \<Rightarrow> real" where
  "playerPosY fr = fst (snd (playerPos fr))"

definition playerPosZ :: "Frame \<Rightarrow> real" where
  "playerPosZ fr = snd (snd (playerPos fr))"

definition isHazard :: "ObjectType \<Rightarrow> bool" where
  "isHazard t = (t = OBSTACLE \<or> t = ALIEN \<or> t = MISSILE)"

definition speedFactor :: "GameState \<Rightarrow> real" where
  "speedFactor st = (if isTimeWarpActive st then 0.5 else 1.0)"

definition effectiveSpeed :: "GameState \<Rightarrow> real" where
  "effectiveSpeed st = speed st * speedFactor st"

definition safeDelta :: "Frame \<Rightarrow> real" where
  "safeDelta fr = min (delta fr) 0.05"

definition dist_frame :: "GameState \<Rightarrow> Frame \<Rightarrow> real" where
  "dist_frame st fr = effectiveSpeed st * safeDelta fr"

subsection \<open>Drone auto-attack\<close>

text \<open>
  The scan keeps the closest active hazard in front of the player (\<open>targetObj\<close>, here
  its index in the registry) and the distance to beat, starting from 999.
\<close>

fun droneScan :: "real \<Rightarrow> GameObject list \<Rightarrow> nat \<Rightarrow> real \<Rightarrow> nat option \<Rightarrow> nat option" where
  "droneScan pz [] i minDist targetObj = targetObj"
| "droneScan pz (obj # objs) i minDist targetObj =
     (if active obj \<and> isHazard (type_obj obj) \<and> posZ obj < pz \<and> posZ obj > pz - 40
         \<and> \<bar>posZ obj - pz\<bar> < minDist
      then droneScan pz objs (Suc i) \<bar>posZ obj - pz\<bar> (Some i)
      else droneScan pz objs (Suc i) minDist targetObj)"

definition droneAttack ::
  "GameState \<Rightarrow> Frame \<Rightarrow> GameObject list \<Rightarrow> GameObject list \<times> TickEffect list \<times> bool" where
  "droneAttack st fr objs =
     (if hasDrone st \<and> now fr - lastDroneFire fr > 2000 then
        (case droneScan (playerPosZ fr) objs 0 999 None of
           None \<Rightarrow> (objs, [], False)
         | Some i \<Rightarrow>
             (objs[i := (objs ! i)\<lparr>active := False\<rparr>],
              [ParticleBurst (position (objs ! i)) ''#00ccff'' (Some 0.5)],
              True))
      else (objs, [], False))"

subsection \<open>The pass over the registry: one entity\<close>

definition moveAmount :: "GameState \<Rightarrow> Frame \<Rightarrow> GameObject \<Rightarrow> real" where
  "moveAmount st fr obj =
     dist_frame st fr
     + (if type_obj obj = MISSILE then (MISSILE_SPEED * speedFactor st) * safeDelta fr else 0)"

definition moveObject :: "GameState \<Rightarrow> Frame \<Rightarrow> GameObject \<Rightarrow> GameObject" where
  "moveObject st fr obj =
     obj\<lparr>position := (posX obj, posY obj, posZ obj + moveAmount st fr obj)\<rparr>"

definition attractionRange :: "int \<Rightarrow> real" where
  "attractionRange ml = 5 + (of_int ml * 5) + (if ml = 5 then 5 else 0)"

definition attractionSpeed :: "int \<Rightarrow> real" where
  "attractionSpeed ml = 2 + (of_int ml * 2)"

definition magnetPull :: "GameState \<Rightarrow> Frame \<Rightarrow> GameObject \<Rightarrow> GameObject" where
  "magnetPull st fr obj =
     (if magnetLevel st > 0 \<and> active obj \<and> type_obj obj = GEM
         \<and> \<bar>posZ obj - playerPosZ fr\<bar> < attractionRange (magnetLevel st)
      then
        (let lerpSpeed = safeDelta fr * attractionSpeed (magnetLevel st);
             x1 = posX obj + (playerPosX fr - posX obj) * lerpSpeed;
             y1 = posY obj + (playerPosY fr + 1.0 - posY obj) * lerpSpeed
         in obj\<lparr>position := (x1, y1, posZ obj)\<rparr>)
      else obj)"

definition threatAhead :: "TypesConsts \<Rightarrow> GameState \<Rightarrow> GameObject \<Rightarrow> bool" where
  "threatAhead K st obj =
     (gameMode st = ASSIST \<and> active obj \<and> isHazard (type_obj obj)
      \<and> \<bar>posX obj - of_int (playerLane st) * LANE_WIDTH K\<bar> < LANE_WIDTH K * 0.4
      \<and> posZ obj > - (effectiveSpeed st * 0.7)
      \<and> posZ obj < - (effectiveSpeed st * 0.25))"

definition alienFires :: "GameObject \<Rightarrow> bool" where
  "alienFires obj = (type_obj obj = ALIEN \<and> active obj \<and> \<not> hasFired obj \<and> posZ obj > - 90)"

definition alienLatch :: "GameObject \<Rightarrow> GameObject" where
  "alienLatch obj = (if alienFires obj then obj\<lparr>hasFired := True\<rparr> else obj)"

definition missileFrom :: "string \<Rightarrow> GameObject \<Rightarrow> GameObject" where
  "missileFrom newId obj =
     \<lparr> id_obj = newId, type_obj = MISSILE, position = (posX obj, 1.0, posZ obj + 2),
       active = True, color = Some ''#ff0000'', points = None, value_obj = None,
       targetIndex = None, hasFired = False \<rparr>"

text \<open>
  Collision resolution (the block under \<open>let keep = true\<close>): the entity after it, the
  value of \<open>keep\<close>, the effects issued, and whether \<open>hasChanges\<close> was set.
\<close>

definition inZZone :: "Frame \<Rightarrow> real \<Rightarrow> GameObject \<Rightarrow> bool" where
  "inZZone fr prevZ obj = (prevZ < playerPosZ fr + 2.0 \<and> posZ obj > playerPosZ fr - 2.0)"

definition objBottom :: "GameObject \<Rightarrow> real" where
  "objBottom obj =
     (if type_obj obj = OBSTACLE then 0
      else if type_obj obj = MISSILE then 0.5
      else posY obj - 0.5)"

definition objTop :: "GameObject \<Rightarrow> real" where
  "objTop obj =
     (if type_obj obj = OBSTACLE then OBSTACLE_HEIGHT
      else if type_obj obj = MISSILE then 1.5
      else posY obj + 0.5)"

definition isHit :: "Frame \<Rightarrow> GameObject \<Rightarrow> bool" where
  "isHit fr obj = (playerPosY fr < objTop obj \<and> playerPosY fr + 1.8 > objBottom obj)"

definition pointsOr10 :: "GameObject \<Rightarrow> real" where
  "pointsOr10 obj = (case points obj of None \<Rightarrow> 10 | Some p \<Rightarrow> if p = 0 then 10 else p)"

definition colorOrWhite :: "GameObject \<Rightarrow> string" where
  "colorOrWhite obj = (case color obj of None \<Rightarrow> ''#ffffff'' | Some c \<Rightarrow> if c = [] then ''#ffffff'' else c)"

definition pickupEffects :: "GameObject \<Rightarrow> TickEffect list" where
  "pickupEffects obj =
     (if type_obj obj = GEM
      then [CollectGem (pointsOr10 obj) (color obj = Some ''#00ff00''), PlayGemCollect] else [])
     @ (if type_obj obj = LETTER
        then (case targetIndex obj of
                None \<Rightarrow> []
              | Some i \<Rightarrow> [CollectLetter i, PlayLetterCollect])
        else [])
     @ [ParticleBurst (position obj) (colorOrWhite obj) None]"

definition resolveCollision ::
  "Frame \<Rightarrow> real \<Rightarrow> GameObject \<Rightarrow> GameObject \<times> bool \<times> TickEffect list \<times> bool" where
  "resolveCollision fr prevZ obj =
     (if active obj then
        (if type_obj obj = SHOP_PORTAL then
           (if \<bar>posZ obj - playerPosZ fr\<bar> < 2
            then (obj\<lparr>active := False\<rparr>, False, [OpenShop], True)
            else (obj, True, [], False))
         else if inZZone fr prevZ obj then
           (if \<bar>posX obj - playerPosX fr\<bar> < 0.9 then
              (if isHazard (type_obj obj) then
                 (if isHit fr obj then
                    (obj\<lparr>active := False\<rparr>, True,
                     PlayerHit #
                       (if type_obj obj = MISSILE
                        then [ParticleBurst (position obj) ''#ff4400'' None] else []),
                     True)
                  else (obj, True, [], False))
               else
                 (if \<bar>posY obj - playerPosY fr\<bar> < 2.5
                  then (obj\<lparr>active := False\<rparr>, True, pickupEffects obj, True)
                  else (obj, True, [], False)))
            else (obj, True, [], False))
         else (obj, True, [], False))
      else (obj, True, [], False))"

text \<open>
  The body of the loop for one entity: movement, magnet, jump-assist scan, alien fire,
  collision, eviction. \<open>newId\<close> is the identifier a missile gets if one is launched.
\<close>

record ObjResult =
  obj_out :: GameObject
  keep :: bool
  spawned :: "GameObject list"
  emitted :: "TickEffect list"
  threat :: bool
  changed :: bool

definition processObject ::
  "TypesConsts \<Rightarrow> GameState \<Rightarrow> Frame \<Rightarrow> string \<Rightarrow> GameObject \<Rightarrow> ObjResult" where
  "processObject K st fr newId obj =
     (let prevZ = posZ obj;
          o1 = magnetPull st fr (moveObject st fr obj);
          fires = alienFires o1;
          o2 = alienLatch o1;
          col = resolveCollision fr prevZ o2;
          o3 = fst col;
          evict = (posZ o3 > REMOVE_DISTANCE K)
      in \<lparr> obj_out = o3,
           keep = (fst (snd col) \<and> \<not> evict),
           spawned = (if fires then [missileFrom newId o1] else []),
           emitted = (if fires then [ParticleBurst (position o1) ''#ff00ff'' None] else [])
                     @ fst (snd (snd col)),
           threat = threatAhead K st o1,
           changed = (fires \<or> snd (snd (snd col)) \<or> evict) \<rparr>)"

subsection \<open>The pass over the registry: the loop\<close>

record LoopState =
  keptObjects :: "GameObject list"
  newSpawns :: "GameObject list"
  effects :: "TickEffect list"
  threatInCurrentLane :: bool
  hasChanges :: bool

definition loopBody ::
  "TypesConsts \<Rightarrow> GameState \<Rightarrow> Frame \<Rightarrow> GameObject \<Rightarrow> LoopState \<Rightarrow> LoopState" where
  "loopBody K st fr obj ls =
     (let r = processObject K st fr (uuidv4 fr (length (newSpawns ls))) obj
      in \<lparr> keptObjects = (if keep r then keptObjects ls @ [obj_out r] else keptObjects ls),
           newSpawns = newSpawns ls @ spawned r,
           effects = effects ls @ emitted r,
           threatInCurrentLane = (threatInCurrentLane ls \<or> threat r),
           hasChanges = (hasChanges ls \<or> changed r) \<rparr>)"

fun moveAndUpdate ::
  "TypesConsts \<Rightarrow> GameState \<Rightarrow> Frame \<Rightarrow> GameObject list \<Rightarrow> LoopState \<Rightarrow> LoopState" where
  "moveAndUpdate K st fr [] ls = ls"
| "moveAndUpdate K st fr (obj # objs) ls = moveAndUpdate K st fr objs (loopBody K st fr obj ls)"

text \<open>
  The tick up to the point where the new missiles are appended to \<open>keptObjects\<close>:
  drone, loop, jump alert.
\<close>

definition simulationPass ::
  "TypesConsts \<Rightarrow> GameState \<Rightarrow> Frame \<Rightarrow> GameObject list \<Rightarrow> LoopState" where
  "simulationPass K st fr objs =
     (let drone = droneAttack st fr objs;
          ls = moveAndUpdate K st fr (fst drone)
                 \<lparr> keptObjects = [], newSpawns = [], effects = fst (snd drone),
                   threatInCurrentLane = False, hasChanges = snd (snd drone) \<rparr>
      in ls\<lparr> keptObjects := keptObjects ls @ newSpawns ls,
             effects := effects ls
                @ [SetShowJumpAlert (if gameMode st = ASSIST then threatInCurrentLane ls else False)] \<rparr>)"

subsection \<open>Spawn Planner: frontier and branch\<close>

text \<open>
  The planner only pushes onto \<open>keptObjects\<close>. Its frontier test and the choice of its
  branch are modelled; \<open>r1\<close> and \<open>r2\<close> are the values of the two \<open>Math.random()\<close>
  calls that decide the non-letter branch (\<open>r1\<close> against \<open>baseSpawnCheck\<close>, \<open>r2\<close>
  against \<open>obstacleProb\<close>).
\<close>

definition furthestZ :: "GameObject list \<Rightarrow> real" where
  "furthestZ kept =
     (let staticObjects = filter (\<lambda>o'. type_obj o' \<noteq> MISSILE) kept
      in if length staticObjects > 0 then Min (set (map posZ staticObjects)) else - 20)"

definition spawnDue :: "TypesConsts \<Rightarrow> GameObject list \<Rightarrow> bool" where
  "spawnDue K kept = (furthestZ kept > - SPAWN_DISTANCE K)"

definition spawnZ :: "TypesConsts \<Rightarrow> GameState \<Rightarrow> GameObject list \<Rightarrow> real" where
  "spawnZ K st kept = min (furthestZ kept - (12 + speed st * 0.4)) (- SPAWN_DISTANCE K)"

definition isLetterDue :: "GameState \<Rightarrow> Frame \<Rightarrow> bool" where
  "isLetterDue st fr = (distanceTraveled fr + dist_frame st fr \<ge> nextLetterDistance fr)"

definition baseSpawnCheck :: real where
  "baseSpawnCheck = 0.9"

definition baseObstacleProb :: "int \<Rightarrow> real" where
  "baseObstacleProb lvl = 0.20 + (of_int lvl * 0.02)"

definition obstacleProb :: "int \<Rightarrow> bool \<Rightarrow> real" where
  "obstacleProb lvl luckCharm =
     (let p = min 0.6 (baseObstacleProb lvl) in if luckCharm then p * 0.8 else p)"

datatype SpawnBranch = LetterDue | EmptySpace | ObstaclePath | GemLane

definition spawnBranch :: "GameState \<Rightarrow> Frame \<Rightarrow> real \<Rightarrow> real \<Rightarrow> SpawnBranch" where
  "spawnBranch st fr r1 r2 =
     (if isLetterDue st fr then LetterDue
      else if r1 < baseSpawnCheck then
        (if r2 < obstacleProb (level st) (hasLuckCharm st) then ObstaclePath else GemLane)
      else EmptySpace)"

text \<open>
  The registry at the end of a tick. \<open>planned\<close> are the entities the Spawn Planner
  pushes in this tick (none when the frontier is not due). The registry is replaced by
  \<open>keptObjects\<close> when \<open>hasChanges\<close> is set; otherwise the array stays, with its
  entities moved in place. A tick outside PLAYING returns at once.
\<close>

definition registryAfterTick ::
  "TypesConsts \<Rightarrow> GameState \<Rightarrow> Frame \<Rightarrow> GameObject list \<Rightarrow> GameObject list \<Rightarrow> GameObject list" where
  "registryAfterTick K st fr objs planned =
     (if status st \<noteq> PLAYING then objs
      else
        (let ls = simulationPass K st fr objs;
             pushed = (if spawnDue K (keptObjects ls) then planned else [])
         in if hasChanges ls \<or> pushed \<noteq> []
            then keptObjects ls @ pushed
            else map (\<lambda>obj. obj_out (processObject K st fr [] obj)) objs))"

definition effectsOfTick ::
  "TypesConsts \<Rightarrow> GameState \<Rightarrow> Frame \<Rightarrow> GameObject list \<Rightarrow> TickEffect list" where
  "effectsOfTick K st fr objs =
     (if status st \<noteq> PLAYING then [] else effects (simulationPass K st fr objs))"

subsection \<open>Hits\<close>

text \<open>
  The condition under which the collision block dispatches \<open>player-hit\<close> for an
  entity, and the number of \<open>player-hit\<close> events one entity causes over successive
  ticks, for as long as it stays in the registry.
\<close>

definition hitCondition :: "Frame \<Rightarrow> real \<Rightarrow> GameObject \<Rightarrow> bool" where
  "hitCondition fr z obj =
     (active obj \<and> type_obj obj \<noteq> SHOP_PORTAL \<and> inZZone fr z obj
      \<and> \<bar>posX obj - playerPosX fr\<bar> < 0.9 \<and> isHazard (type_obj obj) \<and> isHit fr obj)"

fun hitsOver :: "TypesConsts \<Rightarrow> (GameState \<times> Frame) list \<Rightarrow> GameObject \<Rightarrow> nat" where
  "hitsOver K [] obj = 0"
| "hitsOver K ((st, fr) # ticks) obj =
     count_list (emitted (processObject K st fr [] obj)) PlayerHit
     + (if keep (processObject K st fr [] obj)
        then hitsOver K ticks (obj_out (processObject K st fr [] obj)) else 0)"

section \<open>Example states and inputs\<close>

text \<open>
  Concrete states used to instantiate the theorems below: a player in the shop, and the
  state a CHEAT-mode run starts in (every ability owned, magnet 5, shields 3).
\<close>

definition shopper :: GameState where
  "shopper = initialState\<lparr>status := SHOP, currency := 1000, magnetLevel := 4, shieldCount := 2\<rparr>"

definition maxed :: GameState where
  "maxed = startGame 20 (Finite 5) (selectMode CHEAT initialState)"

text \<open>
  Values for the constants of \<open>types.ts\<close>, two running states (speed 10 and speed
  100), two frames (16 ms and the 50 ms the step is clamped to) with the player at the
  origin, and a few entities: an obstacle and a missile in the player's lane, a gem, an
  obstacle about to pass the removal boundary, and a shop portal.
\<close>

definition exampleConsts :: TypesConsts where
  "exampleConsts = \<lparr>LANE_WIDTH = 2.2, SPAWN_DISTANCE = 120, REMOVE_DISTANCE = 20\<rparr>"

definition running :: GameState where
  "running = initialState\<lparr>status := PLAYING, speed := 10\<rparr>"

definition sprinting :: GameState where
  "sprinting = initialState\<lparr>status := PLAYING, speed := 100\<rparr>"

definition frame16 :: Frame where
  "frame16 = \<lparr>delta = 0.016, playerPos = (0, 0, 0), now = 5000, lastDroneFire = 0,
          distanceTraveled = 0, nextLetterDistance = 150, uuidv4 = (\<lambda>n. ''fresh'')\<rparr>"

definition frame50 :: Frame where
  "frame50 = frame16\<lparr>delta := 0.05\<rparr>"

definition cone :: GameObject where
  "cone = \<lparr>id_obj = ''cone'', type_obj = OBSTACLE, position = (0, 0.8, -1), active = True,
           color = Some ''#ff0054'', points = None, value_obj = None, targetIndex = None,
           hasFired = False\<rparr>"

definition rocket :: GameObject where
  "rocket = \<lparr>id_obj = ''rocket'', type_obj = MISSILE, position = (0, 1, -3), active = True,
           color = Some ''#ff0000'', points = None, value_obj = None, targetIndex = None,
           hasFired = False\<rparr>"

definition gem :: GameObject where
  "gem = \<lparr>id_obj = ''gem'', type_obj = GEM, position = (0, 1.2, -1), active = True,
           color = Some ''#00ffff'', points = Some 10, value_obj = None, targetIndex = None,
           hasFired = False\<rparr>"

definition passed :: GameObject where
  "passed = \<lparr>id_obj = ''passed'', type_obj = OBSTACLE, position = (2.2, 0.8, 19.9), active = True,
           color = Some ''#ff0054'', points = None, value_obj = None, targetIndex = None,
           hasFired = False\<rparr>"

definition portal :: GameObject where
  "portal = \<lparr>id_obj = ''portal'', type_obj = SHOP_PORTAL, position = (0, 0, -1.5), active = True,
           color = None, points = None, value_obj = None, targetIndex = None,
           hasFired = False\<rparr>"

section \<open>Properties of the state machine\<close>

text \<open>
  Claim C1. \<open>takeDamage\<close> changes nothing in CHEAT mode, under active immortality or
  under shop invincibility. Otherwise a held shield is consumed (one, and nothing else
  changes); otherwise a life above the last is consumed; otherwise, on the last life, a
  held revive charge is consumed: lives are set to \<open>maxLives\<close>, the immortality flag is
  set (and cleared again by the timer that is started), the status is left as it was;
  with no revive charge lives and speed become 0 and the status becomes VICTORY for an
  endless run and GAME_OVER for any other.
\<close>

theorem takeDamage_spec:
  "(gameMode s = CHEAT \<or> isImmortalityActive s \<or> isShopInvincible s
      \<longrightarrow> takeDamage s = (s, [])) \<and>
   (gameMode s \<noteq> CHEAT \<and> \<not> isImmortalityActive s \<and> \<not> isShopInvincible s \<longrightarrow>
      (shieldCount s > 0 \<longrightarrow> takeDamage s = (s\<lparr>shieldCount := shieldCount s - 1\<rparr>, [])) \<and>
      (shieldCount s \<le> 0 \<and> lives s > 1 \<longrightarrow> takeDamage s = (s\<lparr>lives := lives s - 1\<rparr>, [])) \<and>
      (shieldCount s \<le> 0 \<and> lives s \<le> 1 \<and> hasRevive s \<longrightarrow>
         fst (takeDamage s) = s\<lparr>lives := maxLives s, hasRevive := False, isImmortalityActive := True\<rparr> \<and>
         status (fst (takeDamage s)) = status s \<and>
         snd (takeDamage s) = [DispatchEvent ''trigger-sonic-blast'', SetTimeout ClearImmortality 3000] \<and>
         \<not> isImmortalityActive (fireTimer ClearImmortality (fst (takeDamage s)))) \<and>
      (shieldCount s \<le> 0 \<and> lives s \<le> 1 \<and> \<not> hasRevive s \<longrightarrow>
         takeDamage s = (s\<lparr>lives := 0,
                            status := (if targetLevels s = Infinity then VICTORY else GAME_OVER),
                            speed := 0\<rparr>, [])))"
  by (simp add: takeDamage_def)

text \<open>
  One instance per branch: CHEAT mode, two shields, three lives, the last life with a
  revive charge (\<open>maxLives = 3\<close>), the last life of an endless run, the last life of a
  five-level run.
\<close>

theorem takeDamage_spec_witness:
  "gameMode (initialState\<lparr>status := PLAYING, gameMode := CHEAT\<rparr>) = CHEAT
   \<and> takeDamage (initialState\<lparr>status := PLAYING, gameMode := CHEAT\<rparr>)
       = (initialState\<lparr>status := PLAYING, gameMode := CHEAT\<rparr>, [])
   \<and> shieldCount (initialState\<lparr>status := PLAYING, shieldCount := 2\<rparr>) > 0
   \<and> fst (takeDamage (initialState\<lparr>status := PLAYING, shieldCount := 2\<rparr>))
       = initialState\<lparr>status := PLAYING, shieldCount := 1\<rparr>
   \<and> lives (initialState\<lparr>status := PLAYING\<rparr>) > 1
   \<and> fst (takeDamage (initialState\<lparr>status := PLAYING\<rparr>))
       = initialState\<lparr>status := PLAYING, lives := 2\<rparr>
   \<and> hasRevive (initialState\<lparr>status := PLAYING, lives := 1, hasRevive := True\<rparr>)
   \<and> fst (takeDamage (initialState\<lparr>status := PLAYING, lives := 1, hasRevive := True\<rparr>))
       = initialState\<lparr>status := PLAYING, lives := 3, hasRevive := False,
                       isImmortalityActive := True\<rparr>
   \<and> targetLevels (initialState\<lparr>status := PLAYING, lives := 1, targetLevels := Infinity\<rparr>) = Infinity
   \<and> fst (takeDamage (initialState\<lparr>status := PLAYING, lives := 1, targetLevels := Infinity\<rparr>))
       = initialState\<lparr>status := VICTORY, lives := 0, targetLevels := Infinity\<rparr>
   \<and> fst (takeDamage (initialState\<lparr>status := PLAYING, lives := 1\<rparr>))
       = initialState\<lparr>status := GAME_OVER, lives := 0\<rparr>"
  using takeDamage_spec [of "initialState\<lparr>status := PLAYING, gameMode := CHEAT\<rparr>"]
        takeDamage_spec [of "initialState\<lparr>status := PLAYING, shieldCount := 2\<rparr>"]
        takeDamage_spec [of "initialState\<lparr>status := PLAYING\<rparr>"]
        takeDamage_spec [of "initialState\<lparr>status := PLAYING, lives := 1, hasRevive := True\<rparr>"]
        takeDamage_spec [of "initialState\<lparr>status := PLAYING, lives := 1, targetLevels := Infinity\<rparr>"]
        takeDamage_spec [of "initialState\<lparr>status := PLAYING, lives := 1\<rparr>"]
  by (simp add: initialState_def)




text \<open>
  Claim C3. \<open>collectLetter\<close> changes nothing for an index that is already collected.
  Otherwise it appends the index and adds 2.5% of \<open>RUN_SPEED_BASE\<close> to the speed; if
  that makes six letters, it advances the level when the run is endless or the level
  is below the target, and otherwise sets the status to VICTORY and adds 10000 to the
  score. With a target of 5, the sixth letter at level 5 gives VICTORY and 10000
  points on top of the letter's own effects.
\<close>

theorem collectLetter_spec:
  "(index \<in> set (collectedLetters s) \<longrightarrow> collectLetter R index s = s) \<and>
   (index \<notin> set (collectedLetters s) \<longrightarrow>
      (length (collectedLetters s @ [index]) \<noteq> 6 \<longrightarrow>
         collectLetter R index s =
           s\<lparr>collectedLetters := collectedLetters s @ [index],
              speed := speed s + R * 0.025\<rparr>) \<and>
      (length (collectedLetters s @ [index]) = 6 \<and>
       (targetLevels s = Infinity \<or> (\<exists>n. targetLevels s = Finite n \<and> level s < n)) \<longrightarrow>
         collectLetter R index s =
           advanceLevel R (s\<lparr>collectedLetters := collectedLetters s @ [index],
                               speed := speed s + R * 0.025\<rparr>)) \<and>
      (length (collectedLetters s @ [index]) = 6 \<and>
       (\<exists>n. targetLevels s = Finite n \<and> n \<le> level s) \<longrightarrow>
         collectLetter R index s =
           s\<lparr>collectedLetters := collectedLetters s @ [index],
              speed := speed s + R * 0.025,
              status := VICTORY,
              score := score s + 10000\<rparr>) \<and>
      (length (collectedLetters s @ [index]) = 6 \<and>
       targetLevels s = Finite 5 \<and> level s = 5 \<longrightarrow>
         status (collectLetter R index s) = VICTORY \<and>
         score (collectLetter R index s) = score s + 10000 \<and>
         speed (collectLetter R index s) = speed s + R * 0.025 \<and>
         collectedLetters (collectLetter R index s) = collectedLetters s @ [index]))"
  by (cases "targetLevels s")
     (auto simp add: collectLetter_def GEMINI_TARGET_def Let_def)


text \<open>
  A letter collected twice, a third letter, the sixth letter at level 1 of 5 (level
  advance), and the sixth letter at level 5 of 5 (victory); \<open>RUN_SPEED_BASE = 20\<close>.
\<close>

theorem collectLetter_spec_witness:
  "(2::int) \<in> set (collectedLetters (initialState\<lparr>status := PLAYING, collectedLetters := [0, 2]\<rparr>))
   \<and> collectLetter 20 2 (initialState\<lparr>status := PLAYING, collectedLetters := [0, 2]\<rparr>)
        = initialState\<lparr>status := PLAYING, collectedLetters := [0, 2]\<rparr>
   \<and> (3::int) \<notin> set (collectedLetters (initialState\<lparr>status := PLAYING, speed := 20, collectedLetters := [0, 2]\<rparr>))
   \<and> collectLetter 20 3 (initialState\<lparr>status := PLAYING, speed := 20, collectedLetters := [0, 2]\<rparr>)
        = initialState\<lparr>status := PLAYING, speed := 20.5, collectedLetters := [0, 2, 3]\<rparr>
   \<and> collectLetter 20 3 (initialState\<lparr>status := PLAYING, speed := 20, collectedLetters := [0, 1, 2, 4, 5]\<rparr>)
        = initialState\<lparr>status := PLAYING, speed := 22.5, collectedLetters := [],
                        level := 2, laneCount := 5\<rparr>
   \<and> collectLetter 20 3 (initialState\<lparr>status := PLAYING, speed := 20, level := 5, score := 700,
                                       collectedLetters := [0, 1, 2, 4, 5]\<rparr>)
        = initialState\<lparr>status := VICTORY, speed := 20.5, level := 5, score := 10700,
                        collectedLetters := [0, 1, 2, 4, 5, 3]\<rparr>"
  using collectLetter_spec [of 2 "initialState\<lparr>status := PLAYING, collectedLetters := [0, 2]\<rparr>" 20]
        collectLetter_spec [of 3 "initialState\<lparr>status := PLAYING, speed := 20, collectedLetters := [0, 2]\<rparr>" 20]
        collectLetter_spec [of 3 "initialState\<lparr>status := PLAYING, speed := 20, collectedLetters := [0, 1, 2, 4, 5]\<rparr>" 20]
        collectLetter_spec [of 3 "initialState\<lparr>status := PLAYING, speed := 20, level := 5, score := 700,
                                       collectedLetters := [0, 1, 2, 4, 5]\<rparr>" 20]
  by (simp add: initialState_def advanceLevel_def)

text \<open>
  Claim C7. \<open>buyItem('EXCHANGE', cost)\<close> with positive currency adds 100 times the
  currency to the score, sets the currency to 0 and returns true, whatever the cost;
  with no currency it returns false and changes nothing; 500 currency gives 50000.
\<close>

theorem buyItem_EXCHANGE:
  "(currency s > 0 \<longrightarrow>
      buyItem ''EXCHANGE'' cost s =
        (s\<lparr>score := score s + currency s * 100, currency := 0\<rparr>, True)) \<and>
   (currency s = 0 \<longrightarrow> buyItem ''EXCHANGE'' cost s = (s, False)) \<and>
   (currency s = 500 \<longrightarrow>
      score (fst (buyItem ''EXCHANGE'' cost s)) = score s + 50000 \<and>
      currency (fst (buyItem ''EXCHANGE'' cost s)) = 0 \<and>
      snd (buyItem ''EXCHANGE'' cost s))"
  by (simp add: buyItem_def)


text \<open>An exchange of 500 at a cost argument of 999999, and an exchange with nothing.\<close>

theorem buyItem_EXCHANGE_witness:
  "currency (initialState\<lparr>status := SHOP, currency := 500, score := 120\<rparr>) = 500
   \<and> buyItem ''EXCHANGE'' 999999 (initialState\<lparr>status := SHOP, currency := 500, score := 120\<rparr>)
        = (initialState\<lparr>status := SHOP, currency := 0, score := 50120\<rparr>, True)
   \<and> currency (initialState\<lparr>status := SHOP\<rparr>) = 0
   \<and> buyItem ''EXCHANGE'' 0 (initialState\<lparr>status := SHOP\<rparr>)
        = (initialState\<lparr>status := SHOP\<rparr>, False)"
  using buyItem_EXCHANGE [of "initialState\<lparr>status := SHOP, currency := 500, score := 120\<rparr>" 999999]
        buyItem_EXCHANGE [of "initialState\<lparr>status := SHOP\<rparr>" 0]
  by (simp add: initialState_def)

text \<open>
  Purchases and hits keep the magnet level and the shield count within their caps.
\<close>

lemma applyItem_caps:
  "inCaps s0 \<Longrightarrow> magnetLevel s = magnetLevel s0 \<Longrightarrow> shieldCount s = shieldCount s0
     \<Longrightarrow> inCaps (applyItem ty s0 s)"
  by (simp add: applyItem_def inCaps_def)

lemma buyItem_caps: "inCaps s \<Longrightarrow> inCaps (fst (buyItem ty cost s))"
proof -
  assume a: "inCaps s"
  have "inCaps (s\<lparr>score := score s + currency s * 100, currency := 0\<rparr>)"
    using a by (simp add: inCaps_def)
  moreover have "inCaps (applyItem ty s (s\<lparr>currency := currency s - cost\<rparr>))"
    using a by (rule applyItem_caps) simp_all
  ultimately show ?thesis using a by (simp add: buyItem_def)
qed

lemma takeDamage_caps: "inCaps s \<Longrightarrow> inCaps (fst (takeDamage s))"
  by (simp add: takeDamage_def inCaps_def)

lemma call_caps: "inCaps s \<Longrightarrow> inCaps (call c s)"
  by (cases c) (simp_all add: buyItem_caps takeDamage_caps)

lemma calls_caps: "inCaps s \<Longrightarrow> inCaps (calls cs s)"
  by (induction cs arbitrary: s) (simp_all add: call_caps)

text \<open>
  Claim C8. From a state with the magnet level in [0, 5] and the shield count in
  [0, 3], every sequence of \<open>buyItem\<close> and \<open>takeDamage\<close> calls leaves both in their
  ranges; a MAGNET purchase at level 5 or above and a SHIELD purchase at 3 or above
  are rejected and change nothing; \<open>takeDamage\<close> does not take the shield count below 0.
\<close>

theorem caps_invariant:
  assumes "0 \<le> magnetLevel s" and "magnetLevel s \<le> 5"
      and "0 \<le> shieldCount s" and "shieldCount s \<le> 3"
  shows "0 \<le> magnetLevel (calls cs s) \<and> magnetLevel (calls cs s) \<le> 5 \<and>
         0 \<le> shieldCount (calls cs s) \<and> shieldCount (calls cs s) \<le> 3 \<and>
         (magnetLevel s \<ge> 5 \<longrightarrow> buyItem ''MAGNET'' cost s = (s, False)) \<and>
         (shieldCount s \<ge> 3 \<longrightarrow> buyItem ''SHIELD'' cost s = (s, False)) \<and>
         0 \<le> shieldCount (fst (takeDamage s))"
proof -
  have "inCaps s" using assms by (simp add: inCaps_def)
  then have "inCaps (calls cs s)" and "inCaps (fst (takeDamage s))"
    by (simp_all add: calls_caps takeDamage_caps)
  moreover have "magnetLevel s \<ge> 5 \<longrightarrow> buyItem ''MAGNET'' cost s = (s, False)"
    by (simp add: buyItem_def blocked_def)
  moreover have "shieldCount s \<ge> 3 \<longrightarrow> buyItem ''SHIELD'' cost s = (s, False)"
    by (simp add: buyItem_def blocked_def)
  ultimately show ?thesis by (simp add: inCaps_def)
qed

text \<open>
  A shopper who buys up to both caps and then takes four hits; and rejected purchases
  in the state a CHEAT-mode run starts in.
\<close>

theorem caps_invariant_witness:
  "0 \<le> magnetLevel shopper \<and> magnetLevel shopper \<le> 5
   \<and> 0 \<le> shieldCount shopper \<and> shieldCount shopper \<le> 3
   \<and> magnetLevel (calls [BuyItem ''MAGNET'' 10, BuyItem ''MAGNET'' 10, BuyItem ''SHIELD'' 10,
                         BuyItem ''SHIELD'' 10, TakeDamage, TakeDamage, TakeDamage, TakeDamage]
                   shopper) = 5
   \<and> shieldCount (calls [BuyItem ''MAGNET'' 10, BuyItem ''MAGNET'' 10, BuyItem ''SHIELD'' 10,
                         BuyItem ''SHIELD'' 10, TakeDamage, TakeDamage, TakeDamage, TakeDamage]
                   shopper) = 0
   \<and> magnetLevel maxed \<ge> 5 \<and> shieldCount maxed \<ge> 3
   \<and> buyItem ''MAGNET'' 10 maxed = (maxed, False)
   \<and> buyItem ''SHIELD'' 10 maxed = (maxed, False)"
proof -
  have a: "0 \<le> magnetLevel shopper" "magnetLevel shopper \<le> 5"
          "0 \<le> shieldCount shopper" "shieldCount shopper \<le> 3"
    by (simp_all add: shopper_def initialState_def)
  have b: "0 \<le> magnetLevel maxed" "magnetLevel maxed \<le> 5"
          "0 \<le> shieldCount maxed" "shieldCount maxed \<le> 3"
    by (simp_all add: maxed_def startGame_def selectMode_def initialState_def)
  have c: "magnetLevel maxed \<ge> 5" "shieldCount maxed \<ge> 3"
    by (simp_all add: maxed_def startGame_def selectMode_def initialState_def)
  have d: "calls [BuyItem ''MAGNET'' 10, BuyItem ''MAGNET'' 10, BuyItem ''SHIELD'' 10,
                         BuyItem ''SHIELD'' 10, TakeDamage, TakeDamage, TakeDamage, TakeDamage]
                   shopper = initialState\<lparr>status := SHOP, currency := 980, magnetLevel := 5, shieldCount := 0, lives := 2\<rparr>"
    by (simp add: shopper_def initialState_def buyItem_def blocked_def applyItem_def takeDamage_def)
  show ?thesis
    using a c d caps_invariant [OF a, of _ 10] caps_invariant [OF b, of "[]" 10]
    by simp
qed

text \<open>An identifier without a case in the switch is neither blocked nor applied.\<close>

lemma blocked_unknown: "ty \<notin> set itemIds \<Longrightarrow> \<not> blocked ty s"
  by (auto simp add: blocked_def itemIds_def)

lemma applyItem_unknown: "ty \<notin> set itemIds \<Longrightarrow> applyItem ty s0 s = s"
  by (auto simp add: applyItem_def itemIds_def)

text \<open>
  Claim C9. For a type that is not EXCHANGE and not one of the item identifiers,
  \<open>buyItem\<close> with enough currency debits the cost, changes nothing else, and returns
  true.
\<close>

theorem buyItem_unknown_type:
  assumes "ty \<noteq> ''EXCHANGE''" and "ty \<notin> set itemIds" and "currency s \<ge> cost"
  shows "buyItem ty cost s = (s\<lparr>currency := currency s - cost\<rparr>, True)"
  using assms by (simp add: buyItem_def blocked_unknown applyItem_unknown)


text \<open>The purchase of an item that does not exist, for 300 out of 700.\<close>

theorem buyItem_unknown_type_witness:
  "''JETPACK'' \<noteq> ''EXCHANGE'' \<and> ''JETPACK'' \<notin> set itemIds
   \<and> currency (initialState\<lparr>status := SHOP, currency := 700\<rparr>) \<ge> 300
   \<and> buyItem ''JETPACK'' 300 (initialState\<lparr>status := SHOP, currency := 700\<rparr>)
        = (initialState\<lparr>status := SHOP, currency := 400\<rparr>, True)"
proof -
  have h1: "''JETPACK'' \<noteq> ''EXCHANGE''" by simp
  have h2: "''JETPACK'' \<notin> set itemIds" by (simp add: itemIds_def)
  have h3: "currency (initialState\<lparr>status := SHOP, currency := 700\<rparr>) \<ge> 300"
    by (simp add: initialState_def)
  show ?thesis
    using h1 h2 h3 buyItem_unknown_type [OF h1 h2 h3] by (simp add: initialState_def)
qed

text \<open>
  Claim C10. \<open>collectLetter\<close> does not check its index against the six-glyph target:
  any integer that is not yet collected is appended and earns the speed increase, and
  it counts towards the six letters that advance the level or win the run.
\<close>

theorem collectLetter_any_index:
  assumes "index \<notin> set (collectedLetters s)"
  shows "(length (collectedLetters s) \<noteq> 5 \<longrightarrow>
            collectedLetters (collectLetter R index s) = collectedLetters s @ [index] \<and>
            speed (collectLetter R index s) = speed s + R * 0.025 \<and>
            level (collectLetter R index s) = level s \<and>
            status (collectLetter R index s) = status s) \<and>
         (length (collectedLetters s) = 5 \<longrightarrow>
            (if targetLevels s = Infinity \<or> belowTarget (level s) (targetLevels s)
             then collectLetter R index s =
                    advanceLevel R (s\<lparr>collectedLetters := collectedLetters s @ [index],
                                        speed := speed s + R * 0.025\<rparr>)
             else status (collectLetter R index s) = VICTORY \<and>
                  score (collectLetter R index s) = score s + 10000 \<and>
                  collectedLetters (collectLetter R index s) = collectedLetters s @ [index]))"
  using assms by (simp add: collectLetter_def GEMINI_TARGET_def Let_def)


text \<open>
  The index -7 as a first letter; the index 6 as sixth letter after -7, 0, 1, 99, 2:
  a level advance at level 1 of 5, a victory at level 5 of 5.
\<close>

theorem collectLetter_any_index_witness:
  "(-7::int) \<notin> set (collectedLetters (initialState\<lparr>status := PLAYING, speed := 20\<rparr>))
   \<and> collectedLetters (collectLetter 20 (-7) (initialState\<lparr>status := PLAYING, speed := 20\<rparr>)) = [-7]
   \<and> speed (collectLetter 20 (-7) (initialState\<lparr>status := PLAYING, speed := 20\<rparr>)) = 20.5
   \<and> (6::int) \<notin> set (collectedLetters (initialState\<lparr>status := PLAYING, speed := 20,
                                        collectedLetters := [-7, 0, 1, 99, 2]\<rparr>))
   \<and> level (collectLetter 20 6 (initialState\<lparr>status := PLAYING, speed := 20,
                                        collectedLetters := [-7, 0, 1, 99, 2]\<rparr>)) = 2
   \<and> collectedLetters (collectLetter 20 6 (initialState\<lparr>status := PLAYING, speed := 20,
                                        collectedLetters := [-7, 0, 1, 99, 2]\<rparr>)) = []
   \<and> status (collectLetter 20 6 (initialState\<lparr>status := PLAYING, speed := 20, level := 5,
                                        collectedLetters := [-7, 0, 1, 99, 2]\<rparr>)) = VICTORY
   \<and> score (collectLetter 20 6 (initialState\<lparr>status := PLAYING, speed := 20, level := 5,
                                        collectedLetters := [-7, 0, 1, 99, 2]\<rparr>)) = 10000"
proof -
  have h1: "(-7::int) \<notin> set (collectedLetters (initialState\<lparr>status := PLAYING, speed := 20\<rparr>))"
    by (simp add: initialState_def)
  have h2: "(6::int) \<notin> set (collectedLetters (initialState\<lparr>status := PLAYING, speed := 20,
                                        collectedLetters := [-7, 0, 1, 99, 2]\<rparr>))"
    by simp
  have h3: "(6::int) \<notin> set (collectedLetters (initialState\<lparr>status := PLAYING, speed := 20, level := 5,
                                        collectedLetters := [-7, 0, 1, 99, 2]\<rparr>))"
    by simp
  show ?thesis
    using h1 h2 collectLetter_any_index [OF h1, of 20] collectLetter_any_index [OF h2, of 20]
          collectLetter_any_index [OF h3, of 20]
    by (simp add: initialState_def advanceLevel_def)
qed

section \<open>Properties of the simulation tick\<close>

text \<open>Unfolding sets for evaluating the tick on the example inputs.\<close>

lemmas ex_defs = exampleConsts_def running_def sprinting_def frame16_def frame50_def cone_def rocket_def
  gem_def passed_def portal_def initialState_def

lemmas tick_defs = processObject_def resolveCollision_def inZZone_def
      isHit_def objTop_def objBottom_def OBSTACLE_HEIGHT_def MISSILE_SPEED_def isHazard_def playerPosX_def
      playerPosY_def playerPosZ_def posX_def posY_def posZ_def moveObject_def moveAmount_def
      magnetPull_def alienFires_def alienLatch_def dist_frame_def effectiveSpeed_def speedFactor_def
      safeDelta_def threatAhead_def pickupEffects_def pointsOr10_def colorOrWhite_def Let_def

subsection \<open>Spawn Planner\<close>

text \<open>
  Claim C4 as stated fails at level 1: the threshold there is 22%, not 20%, since the
  level term is \<open>level * 0.02\<close> on a base of 0.20.
\<close>

theorem obstacleProb_level1_counterexample:
  "obstacleProb 1 False = 0.22 \<and> obstacleProb 1 False \<noteq> 0.20"
  by (simp add: obstacleProb_def baseObstacleProb_def)

text \<open>
  Claim C4, amended. In the non-letter branch the obstacle path is chosen when the
  first draw is below 0.9 and the second is below the threshold; the threshold is 20%
  plus 2 percentage points per level (22% at level 1, two points more at each level
  below 20), capped at 60% (from level 20 on), and multiplied by 0.8 with the luck
  charm.
\<close>

theorem obstacleProb_spec:
  "obstacleProb lvl luckCharm
      = min 0.6 (0.20 + 0.02 * of_int lvl) * (if luckCharm then 0.8 else 1)
   \<and> obstacleProb 1 False = 0.22
   \<and> (lvl < 20 \<longrightarrow> obstacleProb (lvl + 1) False = obstacleProb lvl False + 0.02)
   \<and> (lvl \<ge> 20 \<longrightarrow> obstacleProb lvl False = 0.6)
   \<and> obstacleProb lvl True = obstacleProb lvl False * 0.8
   \<and> (\<not> isLetterDue st fr \<longrightarrow>
        (spawnBranch st fr r1 r2 = ObstaclePath \<longleftrightarrow>
           r1 < 0.9 \<and> r2 < obstacleProb (level st) (hasLuckCharm st)))"
proof -
  have a: "obstacleProb lvl luckCharm
      = min 0.6 (0.20 + 0.02 * of_int lvl) * (if luckCharm then 0.8 else 1)"
    by (simp add: obstacleProb_def baseObstacleProb_def Let_def mult.commute)
  have b: "obstacleProb 1 False = 0.22"
    by (simp add: obstacleProb_def baseObstacleProb_def)
  have c: "lvl < 20 \<longrightarrow> obstacleProb (lvl + 1) False = obstacleProb lvl False + 0.02"
    by (simp add: obstacleProb_def baseObstacleProb_def Let_def min_def add_divide_distrib)
  have d: "lvl \<ge> 20 \<longrightarrow> obstacleProb lvl False = 0.6"
    by (simp add: obstacleProb_def baseObstacleProb_def Let_def min_def)
  have e: "obstacleProb lvl True = obstacleProb lvl False * 0.8"
    by (simp add: obstacleProb_def Let_def)
  have f: "\<not> isLetterDue st fr \<longrightarrow>
        (spawnBranch st fr r1 r2 = ObstaclePath \<longleftrightarrow>
           r1 < 0.9 \<and> r2 < obstacleProb (level st) (hasLuckCharm st))"
    by (simp add: spawnBranch_def baseSpawnCheck_def)
  show ?thesis using a b c d e f by blast
qed

text \<open>
  Levels 5, 6 and 25 without and with the luck charm, and the branch taken at level 1
  for a few pairs of draws.
\<close>

theorem obstacleProb_spec_witness:
  "obstacleProb 1 False = 0.22
   \<and> (5::int) < 20 \<and> obstacleProb 5 False = 0.30 \<and> obstacleProb 6 False = 0.32
   \<and> (25::int) \<ge> 20 \<and> obstacleProb 25 False = 0.6 \<and> obstacleProb 25 True = 0.48
   \<and> \<not> isLetterDue running frame16
   \<and> spawnBranch running frame16 0.5 0.1 = ObstaclePath
   \<and> spawnBranch running frame16 0.5 0.21 = ObstaclePath
   \<and> spawnBranch running frame16 0.5 0.22 = GemLane
   \<and> spawnBranch (running\<lparr>hasLuckCharm := True\<rparr>) frame16 0.5 0.18 = GemLane
   \<and> spawnBranch running frame16 0.95 0.1 = EmptySpace"
proof -
  have h: "\<not> isLetterDue running frame16" "\<not> isLetterDue (running\<lparr>hasLuckCharm := True\<rparr>) frame16"
    by (simp_all add: isLetterDue_def dist_frame_def effectiveSpeed_def speedFactor_def safeDelta_def
          ex_defs)
  have lv: "level running = 1" "hasLuckCharm running = False" by (simp_all add: ex_defs)
  have e: "spawnBranch running frame16 0.95 0.1 = EmptySpace"
       "spawnBranch running frame16 0.5 0.22 = GemLane"
       "spawnBranch (running\<lparr>hasLuckCharm := True\<rparr>) frame16 0.5 0.18 = GemLane"
    using h by (simp_all add: spawnBranch_def baseSpawnCheck_def obstacleProb_def baseObstacleProb_def lv)
  show ?thesis
    using h e lv obstacleProb_spec [of 5 False running frame16 "0.5" "0.1"]
          obstacleProb_spec [of 25 True running frame16 "0.5" "0.21"]
          obstacleProb_spec [of 25 False running frame16 "0.5" "0.21"]
          obstacleProb_spec [of 5 True running frame16 "0.5" "0.21"]
    by simp
qed

subsection \<open>One entity\<close>

text \<open>
  Each step of the loop body changes only what it is meant to; the fields of the result
  of \<open>processObject\<close> in terms of the steps; what happens to an inactive entity.
\<close>

lemma resolveCollision_inactive:
  "\<not> active obj \<Longrightarrow> resolveCollision fr z obj = (obj, True, [], False)"
  by (simp add: resolveCollision_def)

lemma resolveCollision_posZ: "posZ (fst (resolveCollision fr z obj)) = posZ obj"
  by (simp add: resolveCollision_def posZ_def)

lemma resolveCollision_keep:
  "fst (snd (resolveCollision fr z obj)) \<longleftrightarrow>
     \<not> (active obj \<and> type_obj obj = SHOP_PORTAL \<and> \<bar>posZ obj - playerPosZ fr\<bar> < 2)"
  by (simp add: resolveCollision_def)

lemma resolveCollision_unchanged_keep:
  "\<not> snd (snd (snd (resolveCollision fr z obj))) \<Longrightarrow> fst (snd (resolveCollision fr z obj))"
  by (simp add: resolveCollision_def split: if_splits)

lemma moveObject_simps:
  "posZ (moveObject st fr obj) = posZ obj + moveAmount st fr obj"
  "posX (moveObject st fr obj) = posX obj"
  "posY (moveObject st fr obj) = posY obj"
  "active (moveObject st fr obj) = active obj"
  "type_obj (moveObject st fr obj) = type_obj obj"
  "hasFired (moveObject st fr obj) = hasFired obj"
  by (simp_all add: moveObject_def posX_def posY_def posZ_def)

lemma magnetPull_simps:
  "posZ (magnetPull st fr obj) = posZ obj"
  "active (magnetPull st fr obj) = active obj"
  "type_obj (magnetPull st fr obj) = type_obj obj"
  "hasFired (magnetPull st fr obj) = hasFired obj"
  by (simp_all add: magnetPull_def posZ_def Let_def)

lemma magnetPull_not_gem: "type_obj obj \<noteq> GEM \<Longrightarrow> magnetPull st fr obj = obj"
  by (simp add: magnetPull_def)

lemma magnetPull_inactive: "\<not> active obj \<Longrightarrow> magnetPull st fr obj = obj"
  by (simp add: magnetPull_def)

lemma alienLatch_simps:
  "posZ (alienLatch obj) = posZ obj"
  "posX (alienLatch obj) = posX obj"
  "posY (alienLatch obj) = posY obj"
  "active (alienLatch obj) = active obj"
  "type_obj (alienLatch obj) = type_obj obj"
  by (simp_all add: alienLatch_def posX_def posY_def posZ_def)

lemma alienLatch_inactive: "\<not> active obj \<Longrightarrow> alienLatch obj = obj"
  by (simp add: alienLatch_def alienFires_def)

lemma processObject_sel:
  "obj_out (processObject K st fr u obj) =
     fst (resolveCollision fr (posZ obj) (alienLatch (magnetPull st fr (moveObject st fr obj))))"
  "keep (processObject K st fr u obj) =
     (fst (snd (resolveCollision fr (posZ obj) (alienLatch (magnetPull st fr (moveObject st fr obj)))))
      \<and> \<not> posZ obj + moveAmount st fr obj > REMOVE_DISTANCE K)"
  "emitted (processObject K st fr u obj) =
     (if alienFires (magnetPull st fr (moveObject st fr obj))
      then [ParticleBurst (position (magnetPull st fr (moveObject st fr obj))) ''#ff00ff'' None]
      else [])
     @ fst (snd (snd (resolveCollision fr (posZ obj)
                        (alienLatch (magnetPull st fr (moveObject st fr obj))))))"
  "changed (processObject K st fr u obj) =
     (alienFires (magnetPull st fr (moveObject st fr obj))
      \<or> snd (snd (snd (resolveCollision fr (posZ obj)
                         (alienLatch (magnetPull st fr (moveObject st fr obj))))))
      \<or> posZ obj + moveAmount st fr obj > REMOVE_DISTANCE K)"
  "spawned (processObject K st fr u obj) =
     (if alienFires (magnetPull st fr (moveObject st fr obj))
      then [missileFrom u (magnetPull st fr (moveObject st fr obj))] else [])"
  "threat (processObject K st fr u obj) = threatAhead K st (magnetPull st fr (moveObject st fr obj))"
  by (simp_all add: processObject_def Let_def resolveCollision_posZ alienLatch_simps
        magnetPull_simps moveObject_simps)

lemma processObject_newId:
  "obj_out (processObject K st fr u obj) = obj_out (processObject K st fr [] obj)"
  "keep (processObject K st fr u obj) = keep (processObject K st fr [] obj)"
  "emitted (processObject K st fr u obj) = emitted (processObject K st fr [] obj)"
  "changed (processObject K st fr u obj) = changed (processObject K st fr [] obj)"
  by (simp_all only: processObject_sel)

lemma processObject_keep:
  "keep (processObject K st fr u obj) \<longleftrightarrow>
     \<not> (active obj \<and> type_obj obj = SHOP_PORTAL
          \<and> \<bar>posZ obj + moveAmount st fr obj - playerPosZ fr\<bar> < 2)
     \<and> posZ obj + moveAmount st fr obj \<le> REMOVE_DISTANCE K"
  by (simp add: processObject_sel resolveCollision_keep alienLatch_simps
        moveObject_simps magnetPull_simps not_less)

lemma processObject_inactive:
  assumes "\<not> active obj"
  shows "processObject K st fr u obj =
       \<lparr> obj_out = moveObject st fr obj,
         keep = (posZ obj + moveAmount st fr obj \<le> REMOVE_DISTANCE K),
         spawned = [], emitted = [], threat = False,
         changed = (posZ obj + moveAmount st fr obj > REMOVE_DISTANCE K) \<rparr>"
proof -
  have m: "\<not> active (moveObject st fr obj)" using assms by (simp add: moveObject_simps)
  have e1: "magnetPull st fr (moveObject st fr obj) = moveObject st fr obj"
    using m by (rule magnetPull_inactive)
  have e2: "alienLatch (moveObject st fr obj) = moveObject st fr obj"
    using m by (rule alienLatch_inactive)
  have e3: "\<not> alienFires (moveObject st fr obj)" using m by (simp add: alienFires_def)
  have e4: "\<not> threatAhead K st (moveObject st fr obj)" using m by (simp add: threatAhead_def)
  have e5: "resolveCollision fr (posZ obj) (moveObject st fr obj) = (moveObject st fr obj, True, [], False)"
    using m by (rule resolveCollision_inactive)
  show ?thesis
    by (simp add: processObject_def Let_def e1 e2 e3 e4 e5 moveObject_simps not_less)
qed

lemma processObject_unchanged:
  "\<not> changed (processObject K st fr u obj) \<Longrightarrow>
     keep (processObject K st fr u obj) \<and> spawned (processObject K st fr u obj) = []"
  by (simp add: processObject_sel resolveCollision_unchanged_keep)

lemma loopBody_sel:
  "keptObjects (loopBody K st fr obj ls) =
     (if keep (processObject K st fr [] obj)
      then keptObjects ls @ [obj_out (processObject K st fr [] obj)] else keptObjects ls)"
  "hasChanges (loopBody K st fr obj ls) = (hasChanges ls \<or> changed (processObject K st fr [] obj))"
  "effects (loopBody K st fr obj ls) = effects ls @ emitted (processObject K st fr [] obj)"
  "newSpawns (loopBody K st fr obj ls) =
     newSpawns ls @ spawned (processObject K st fr (uuidv4 fr (length (newSpawns ls))) obj)"
  unfolding loopBody_def Let_def
  using processObject_newId [of K st fr "uuidv4 fr (length (newSpawns ls))" obj]
  by simp_all

lemma loop_kept:
  "keptObjects (moveAndUpdate K st fr objs ls) =
     keptObjects ls @ map obj_out (filter keep (map (processObject K st fr []) objs))"
  by (induction objs arbitrary: ls) (simp_all add: loopBody_sel)

lemma loop_unchanged:
  "\<not> hasChanges (moveAndUpdate K st fr objs ls) \<Longrightarrow>
     \<not> hasChanges ls \<and>
     keptObjects (moveAndUpdate K st fr objs ls)
        = keptObjects ls @ map (\<lambda>obj. obj_out (processObject K st fr [] obj)) objs \<and>
     newSpawns (moveAndUpdate K st fr objs ls) = newSpawns ls"
proof (induction objs arbitrary: ls)
  case Nil
  then show ?case by simp
next
  case (Cons obj objs)
  have "\<not> hasChanges (moveAndUpdate K st fr objs (loopBody K st fr obj ls))"
    using Cons.prems by simp
  note ih = Cons.IH [OF this]
  have a: "\<not> hasChanges ls" and c: "\<not> changed (processObject K st fr [] obj)"
    using ih [THEN conjunct1] by (simp_all add: loopBody_sel)
  have c': "\<not> changed (processObject K st fr (uuidv4 fr (length (newSpawns ls))) obj)"
    using c processObject_newId(4) [of K st fr "uuidv4 fr (length (newSpawns ls))" obj] by simp
  have e: "keep (processObject K st fr [] obj)"
    using processObject_unchanged [OF c] by simp
  have f: "spawned (processObject K st fr (uuidv4 fr (length (newSpawns ls))) obj) = []"
    using processObject_unchanged [OF c'] by simp
  have b: "keptObjects (moveAndUpdate K st fr (obj # objs) ls)
           = keptObjects ls @ map (\<lambda>obj. obj_out (processObject K st fr [] obj)) (obj # objs)"
    using ih [THEN conjunct2, THEN conjunct1] e by (simp add: loopBody_sel)
  have d: "newSpawns (moveAndUpdate K st fr (obj # objs) ls) = newSpawns ls"
    using ih [THEN conjunct2, THEN conjunct2] f by (simp add: loopBody_sel)
  show ?case using a b d by blast
qed

lemma droneAttack_unchanged:
  "\<not> snd (snd (droneAttack st fr objs)) \<Longrightarrow> fst (droneAttack st fr objs) = objs"
  by (auto simp add: droneAttack_def split: option.splits if_splits)

subsection \<open>The registry after a tick\<close>

lemma registry_eq:
  assumes "status st = PLAYING"
  shows "registryAfterTick K st fr objs planned =
      map obj_out (filter keep (map (processObject K st fr []) (fst (droneAttack st fr objs))))
      @ newSpawns (simulationPass K st fr objs)
      @ (if spawnDue K (keptObjects (simulationPass K st fr objs)) then planned else [])"
proof -
  let ?init = "\<lparr> keptObjects = [], newSpawns = [], effects = fst (snd (droneAttack st fr objs)),
                 threatInCurrentLane = False, hasChanges = snd (snd (droneAttack st fr objs)) \<rparr>"
  let ?loop = "moveAndUpdate K st fr (fst (droneAttack st fr objs)) ?init"
  let ?P = "simulationPass K st fr objs"
  have kp: "keptObjects ?P = keptObjects ?loop @ newSpawns ?loop"
    and ns: "newSpawns ?P = newSpawns ?loop"
    and hc: "hasChanges ?P = hasChanges ?loop"
    by (simp_all add: simulationPass_def Let_def)
  have kl: "keptObjects ?loop
      = map obj_out (filter keep (map (processObject K st fr []) (fst (droneAttack st fr objs))))"
    by (simp add: loop_kept)
  show ?thesis
  proof (cases "hasChanges ?P \<or> (if spawnDue K (keptObjects ?P) then planned else []) \<noteq> []")
    case True
    then show ?thesis using assms
      by (simp add: registryAfterTick_def Let_def kp ns kl del: moveAndUpdate.simps)
  next
    case False
    then have nc: "\<not> hasChanges ?loop" and np: "(if spawnDue K (keptObjects ?P) then planned else []) = []"
      by (simp_all add: hc)
    note u = loop_unchanged [OF nc]
    have d0: "\<not> snd (snd (droneAttack st fr objs))"
      using u [THEN conjunct1] by simp
    have k2: "keptObjects ?loop = map (\<lambda>obj. obj_out (processObject K st fr [] obj)) (fst (droneAttack st fr objs))"
      using u [THEN conjunct2, THEN conjunct1] by simp
    have n2: "newSpawns ?loop = []"
      using u [THEN conjunct2, THEN conjunct2] by simp
    have dr: "fst (droneAttack st fr objs) = objs" using d0 by (rule droneAttack_unchanged)
    have "registryAfterTick K st fr objs planned = map (\<lambda>obj. obj_out (processObject K st fr [] obj)) objs"
      using assms False by (simp add: registryAfterTick_def Let_def)
    also have "\<dots> = keptObjects ?loop" using k2 dr by simp
    finally show ?thesis using kl n2 ns np by simp
  qed
qed

text \<open>
  Claim C5 as stated fails: an obstacle that hits the player in a tick is deactivated
  and is still in the registry at the end of that tick (a tick in which the planner's
  first draw, 0.95, leaves empty space, so that it pushes nothing).
\<close>

theorem deactivated_entity_stays_counterexample:
  "active cone
   \<and> registryAfterTick exampleConsts running frame16 [cone] []
       = [cone\<lparr>position := (0, 0.8, -0.84), active := False\<rparr>]
   \<and> effectsOfTick exampleConsts running frame16 [cone] = [PlayerHit, SetShowJumpAlert False]
   \<and> spawnBranch running frame16 0.95 0.5 = EmptySpace"
  by (simp add: registryAfterTick_def effectsOfTick_def simulationPass_def droneAttack_def loopBody_def
        spawnBranch_def isLetterDue_def baseSpawnCheck_def tick_defs ex_defs)

text \<open>
  Claim C5, amended. In a tick, the registry keeps exactly the entities for which
  \<open>keep\<close> holds, followed by the missiles launched and the planner's entities. An
  entity is dropped exactly when it is an active shop portal within 2 units of the
  player or its travel-axis position after the move is beyond \<open>REMOVE_DISTANCE\<close>; so
  a hazard or pickup that is deactivated in a tick stays in the registry, inactive,
  until it passes the removal boundary. An inactive entity is never collision-tested:
  collision resolution leaves it as it is and issues nothing, and the tick only moves
  it.
\<close>

theorem registry_after_tick:
  assumes "status st = PLAYING"
  shows
    "registryAfterTick K st fr objs planned =
        map obj_out (filter keep (map (processObject K st fr []) (fst (droneAttack st fr objs))))
        @ newSpawns (simulationPass K st fr objs)
        @ (if spawnDue K (keptObjects (simulationPass K st fr objs)) then planned else [])
     \<and> (\<forall>obj u. keep (processObject K st fr u obj) \<longleftrightarrow>
           \<not> (active obj \<and> type_obj obj = SHOP_PORTAL
                \<and> \<bar>posZ obj + moveAmount st fr obj - playerPosZ fr\<bar> < 2)
           \<and> posZ obj + moveAmount st fr obj \<le> REMOVE_DISTANCE K)
     \<and> (\<forall>obj u. active obj \<and> type_obj obj \<noteq> SHOP_PORTAL
           \<and> posZ obj + moveAmount st fr obj \<le> REMOVE_DISTANCE K
           \<and> \<not> active (obj_out (processObject K st fr u obj))
           \<longrightarrow> keep (processObject K st fr u obj))
     \<and> (\<forall>obj u z. \<not> active obj \<longrightarrow>
           resolveCollision fr z obj = (obj, True, [], False)
           \<and> emitted (processObject K st fr u obj) = []
           \<and> obj_out (processObject K st fr u obj) = moveObject st fr obj
           \<and> \<not> active (obj_out (processObject K st fr u obj)))"
proof -
  have a: "\<forall>obj u. keep (processObject K st fr u obj) \<longleftrightarrow>
           \<not> (active obj \<and> type_obj obj = SHOP_PORTAL
                \<and> \<bar>posZ obj + moveAmount st fr obj - playerPosZ fr\<bar> < 2)
           \<and> posZ obj + moveAmount st fr obj \<le> REMOVE_DISTANCE K"
    by (simp add: processObject_keep)
  have b: "\<forall>obj u z. \<not> active obj \<longrightarrow>
           resolveCollision fr z obj = (obj, True, [], False)
           \<and> emitted (processObject K st fr u obj) = []
           \<and> obj_out (processObject K st fr u obj) = moveObject st fr obj
           \<and> \<not> active (obj_out (processObject K st fr u obj))"
    by (simp add: processObject_inactive resolveCollision_inactive moveObject_simps)
  show ?thesis
    using registry_eq [OF assms, of K fr objs planned] a b by blast
qed

text \<open>
  A tick over a gem that is collected, an obstacle that passes the removal boundary and
  a portal that is entered: only the gem remains, inactive.
\<close>

theorem registry_after_tick_witness:
  "status running = PLAYING
   \<and> registryAfterTick exampleConsts running frame16 [gem, passed, portal] []
       = [gem\<lparr>position := (0, 1.2, -0.84), active := False\<rparr>]"
proof -
  have h: "status running = PLAYING" by (simp add: running_def)
  have d: "fst (droneAttack running frame16 [gem, passed, portal]) = [gem, passed, portal]"
    by (simp add: droneAttack_def running_def initialState_def)
  have g: "processObject exampleConsts running frame16 [] gem =
     \<lparr> obj_out = gem\<lparr>position := (0, 1.2, -0.84), active := False\<rparr>, keep = True, spawned = [],
       emitted = [CollectGem 10 False, PlayGemCollect, ParticleBurst (0, 1.2, -0.84) ''#00ffff'' None],
       threat = False, changed = True \<rparr>"
    by (simp add: tick_defs ex_defs)
  have p: "\<not> keep (processObject exampleConsts running frame16 [] passed)"
    by (simp add: tick_defs ex_defs)
  have q: "\<not> keep (processObject exampleConsts running frame16 [] portal)"
    by (simp add: tick_defs ex_defs)
  have n: "newSpawns (simulationPass exampleConsts running frame16 [gem, passed, portal]) = []"
    by (simp add: simulationPass_def droneAttack_def loopBody_def tick_defs ex_defs)
  show ?thesis
    using h registry_after_tick [OF h, of exampleConsts frame16 "[gem, passed, portal]" "[]"]
    by (simp add: d g p q n)
qed

subsection \<open>Hazard hits\<close>

lemma no_hit_in_pickup:
  "PlayerHit \<notin> set ((if g then [CollectGem v h, PlayGemCollect] else [])
     @ (if l then (case ti of None \<Rightarrow> [] | Some i \<Rightarrow> [CollectLetter i, PlayLetterCollect]) else [])
     @ [ParticleBurst p c None])"
  by (cases g; cases l; cases ti) simp_all

lemma pickupEffects_no_hit: "PlayerHit \<notin> set (pickupEffects obj)"
  unfolding pickupEffects_def by (rule no_hit_in_pickup)

lemma resolveCollision_count:
  "count_list (fst (snd (snd (resolveCollision fr z obj)))) PlayerHit =
     (if hitCondition fr z obj then 1 else 0)"
  by (simp add: resolveCollision_def hitCondition_def pickupEffects_no_hit)

lemma resolveCollision_hit_deactivates:
  "hitCondition fr z obj \<Longrightarrow> \<not> active (fst (resolveCollision fr z obj))"
  by (simp add: resolveCollision_def hitCondition_def)

lemma processObject_count:
  "count_list (emitted (processObject K st fr u obj)) PlayerHit =
     (if hitCondition fr (posZ obj) (alienLatch (magnetPull st fr (moveObject st fr obj)))
      then 1 else 0)"
  by (simp add: processObject_sel resolveCollision_count)

lemma processObject_hit_deactivates:
  "hitCondition fr (posZ obj) (alienLatch (magnetPull st fr (moveObject st fr obj))) \<Longrightarrow>
     \<not> active (obj_out (processObject K st fr u obj))"
  by (simp add: processObject_sel resolveCollision_hit_deactivates)

lemma hitCondition_hazard:
  assumes "isHazard (type_obj obj)"
  shows "hitCondition fr (posZ obj) (alienLatch (magnetPull st fr (moveObject st fr obj))) \<longleftrightarrow>
     active obj
     \<and> posZ obj < playerPosZ fr + 2 \<and> posZ obj + moveAmount st fr obj > playerPosZ fr - 2
     \<and> \<bar>posX obj - playerPosX fr\<bar> < 0.9
     \<and> playerPosY fr < objTop obj \<and> playerPosY fr + 1.8 > objBottom obj"
proof -
  have ng: "type_obj (moveObject st fr obj) \<noteq> GEM"
    using assms by (auto simp add: moveObject_simps isHazard_def)
  have m: "magnetPull st fr (moveObject st fr obj) = moveObject st fr obj"
    using ng by (rule magnetPull_not_gem)
  have np: "type_obj obj \<noteq> SHOP_PORTAL" using assms by (auto simp add: isHazard_def)
  have t: "objTop (alienLatch (moveObject st fr obj)) = objTop obj"
          "objBottom (alienLatch (moveObject st fr obj)) = objBottom obj"
    by (simp_all add: objTop_def objBottom_def alienLatch_simps moveObject_simps)
  show ?thesis
    using assms np
    by (simp add: hitCondition_def m inZZone_def isHit_def t alienLatch_simps moveObject_simps)
qed

lemma hitsOver_inactive: "\<not> active obj \<Longrightarrow> hitsOver K ticks obj = 0"
proof (induction ticks arbitrary: obj)
  case Nil
  show ?case by simp
next
  case (Cons t ticks)
  obtain st fr where t: "t = (st, fr)" by (cases t)
  have p: "processObject K st fr [] obj =
       \<lparr> obj_out = moveObject st fr obj,
         keep = (posZ obj + moveAmount st fr obj \<le> REMOVE_DISTANCE K),
         spawned = [], emitted = [], threat = False,
         changed = (posZ obj + moveAmount st fr obj > REMOVE_DISTANCE K) \<rparr>"
    using Cons.prems by (rule processObject_inactive)
  have "\<not> active (moveObject st fr obj)" using Cons.prems by (simp add: moveObject_simps)
  then have "hitsOver K ticks (moveObject st fr obj) = 0" by (rule Cons.IH)
  then show ?case by (simp add: t p)
qed

lemma hitsOver_le_1: "hitsOver K ticks obj \<le> 1"
proof (induction ticks arbitrary: obj)
  case Nil
  show ?case by simp
next
  case (Cons t ticks)
  obtain st fr where t: "t = (st, fr)" by (cases t)
  show ?case
  proof (cases "hitCondition fr (posZ obj) (alienLatch (magnetPull st fr (moveObject st fr obj)))")
    case True
    then have "\<not> active (obj_out (processObject K st fr [] obj))"
      by (rule processObject_hit_deactivates)
    then have "hitsOver K ticks (obj_out (processObject K st fr [] obj)) = 0"
      by (rule hitsOver_inactive)
    then show ?thesis using True by (simp add: t processObject_count)
  next
    case False
    then show ?thesis using Cons.IH by (simp add: t processObject_count)
  qed
qed

text \<open>
  Claim C6. A hazard (OBSTACLE, ALIEN or MISSILE) registers a hit in a tick exactly
  when it is active, its position before the move is below the player's plus 2 and its
  position after the move is above the player's minus 2, its lateral distance to the
  player is below 0.9, and its vertical box (0 to 1.6 for an obstacle, 0.5 to 1.5 for a
  missile, half a unit around its centre for an alien) overlaps the player's (1.8
  high). The hit is registered once and deactivates the entity, which registers no hit
  in any later tick, so that an entity registers at most one hit over any sequence of
  ticks; an entity that crosses the whole window in one tick registers its hit.
\<close>

theorem hazard_hit_once:
  assumes "isHazard (type_obj obj)"
  shows
    "(PlayerHit \<in> set (emitted (processObject K st fr u obj)) \<longleftrightarrow>
        active obj
        \<and> posZ obj < playerPosZ fr + 2 \<and> posZ obj + moveAmount st fr obj > playerPosZ fr - 2
        \<and> \<bar>posX obj - playerPosX fr\<bar> < 0.9
        \<and> playerPosY fr < objTop obj \<and> playerPosY fr + 1.8 > objBottom obj)
     \<and> (PlayerHit \<in> set (emitted (processObject K st fr u obj)) \<longrightarrow>
          count_list (emitted (processObject K st fr u obj)) PlayerHit = 1
          \<and> \<not> active (obj_out (processObject K st fr u obj))
          \<and> hitsOver K ticks (obj_out (processObject K st fr u obj)) = 0)
     \<and> hitsOver K ticks obj \<le> 1
     \<and> (active obj
        \<and> posZ obj \<le> playerPosZ fr - 2 \<and> posZ obj + moveAmount st fr obj \<ge> playerPosZ fr + 2
        \<and> \<bar>posX obj - playerPosX fr\<bar> < 0.9
        \<and> playerPosY fr < objTop obj \<and> playerPosY fr + 1.8 > objBottom obj
        \<longrightarrow> PlayerHit \<in> set (emitted (processObject K st fr u obj)))
     \<and> (type_obj obj = OBSTACLE \<longrightarrow> objBottom obj = 0 \<and> objTop obj = 1.6)
     \<and> (type_obj obj = MISSILE \<longrightarrow> objBottom obj = 0.5 \<and> objTop obj = 1.5)
     \<and> (type_obj obj = ALIEN \<longrightarrow> objBottom obj = posY obj - 0.5 \<and> objTop obj = posY obj + 0.5)"
proof -
  let ?r = "processObject K st fr u obj"
  let ?c = "hitCondition fr (posZ obj) (alienLatch (magnetPull st fr (moveObject st fr obj)))"
  have cnt: "count_list (emitted ?r) PlayerHit = (if ?c then 1 else 0)"
    by (rule processObject_count)
  have mem: "PlayerHit \<in> set (emitted ?r) \<longleftrightarrow> ?c"
    using cnt count_list_0_iff [of "emitted ?r" PlayerHit] by (cases ?c) simp_all
  have cond: "?c \<longleftrightarrow>
        active obj
        \<and> posZ obj < playerPosZ fr + 2 \<and> posZ obj + moveAmount st fr obj > playerPosZ fr - 2
        \<and> \<bar>posX obj - playerPosX fr\<bar> < 0.9
        \<and> playerPosY fr < objTop obj \<and> playerPosY fr + 1.8 > objBottom obj"
    using assms by (rule hitCondition_hazard)
  have once: "?c \<longrightarrow> count_list (emitted ?r) PlayerHit = 1 \<and> \<not> active (obj_out ?r)
                   \<and> hitsOver K ticks (obj_out ?r) = 0"
    using cnt processObject_hit_deactivates [of fr obj st K u] hitsOver_inactive by simp
  have boxes: "(type_obj obj = OBSTACLE \<longrightarrow> objBottom obj = 0 \<and> objTop obj = 1.6)
     \<and> (type_obj obj = MISSILE \<longrightarrow> objBottom obj = 0.5 \<and> objTop obj = 1.5)
     \<and> (type_obj obj = ALIEN \<longrightarrow> objBottom obj = posY obj - 0.5 \<and> objTop obj = posY obj + 0.5)"
    by (simp add: objBottom_def objTop_def OBSTACLE_HEIGHT_def)
  have cross: "active obj
        \<and> posZ obj \<le> playerPosZ fr - 2 \<and> posZ obj + moveAmount st fr obj \<ge> playerPosZ fr + 2
        \<and> \<bar>posX obj - playerPosX fr\<bar> < 0.9
        \<and> playerPosY fr < objTop obj \<and> playerPosY fr + 1.8 > objBottom obj
        \<longrightarrow> ?c"
    unfolding cond by linarith
  show ?thesis
    using mem cond once boxes cross hitsOver_le_1 [of K ticks obj] by blast
qed

text \<open>
  A missile that goes from 3 units in front of the player to 3.5 units behind it in one
  50 ms tick at speed 100; an obstacle in the player's lane, and the same obstacle one
  lane to the side.
\<close>

theorem hazard_hit_once_witness:
  "isHazard (type_obj rocket)
   \<and> active rocket
   \<and> posZ rocket \<le> playerPosZ frame50 - 2
   \<and> posZ rocket + moveAmount sprinting frame50 rocket \<ge> playerPosZ frame50 + 2
   \<and> emitted (processObject exampleConsts sprinting frame50 [] rocket)
        = [PlayerHit, ParticleBurst (0, 1, 3.5) ''#ff4400'' None]
   \<and> PlayerHit \<in> set (emitted (processObject exampleConsts sprinting frame50 [] rocket))
   \<and> count_list (emitted (processObject exampleConsts sprinting frame50 [] rocket)) PlayerHit = 1
   \<and> \<not> active (obj_out (processObject exampleConsts sprinting frame50 [] rocket))
   \<and> hitsOver exampleConsts [(sprinting, frame50), (sprinting, frame50), (running, frame16)] rocket \<le> 1
   \<and> isHazard (type_obj cone)
   \<and> PlayerHit \<in> set (emitted (processObject exampleConsts running frame16 [] cone))
   \<and> PlayerHit \<notin> set (emitted (processObject exampleConsts running frame16 []
                                  (cone\<lparr>position := (2.2, 0.8, -1)\<rparr>)))"
proof -
  have h1: "isHazard (type_obj rocket)" by (simp add: isHazard_def rocket_def)
  have h2: "isHazard (type_obj cone)" by (simp add: isHazard_def cone_def)
  have h3: "isHazard (type_obj (cone\<lparr>position := (2.2, 0.8, -1)\<rparr>))" by (simp add: isHazard_def cone_def)
  have e: "emitted (processObject exampleConsts sprinting frame50 [] rocket)
        = [PlayerHit, ParticleBurst (0, 1, 3.5) ''#ff4400'' None]"
    by (simp add: tick_defs ex_defs)
  have g: "active rocket" "posZ rocket \<le> playerPosZ frame50 - 2"
      "posZ rocket + moveAmount sprinting frame50 rocket \<ge> playerPosZ frame50 + 2"
      "\<bar>posX rocket - playerPosX frame50\<bar> < 0.9"
      "playerPosY frame50 < objTop rocket" "playerPosY frame50 + 1.8 > objBottom rocket"
    by (simp_all add: tick_defs ex_defs)
  have c: "active cone" "posZ cone < playerPosZ frame16 + 2"
      "posZ cone + moveAmount running frame16 cone > playerPosZ frame16 - 2"
      "\<bar>posX cone - playerPosX frame16\<bar> < 0.9"
      "playerPosY frame16 < objTop cone" "playerPosY frame16 + 1.8 > objBottom cone"
    by (simp_all add: tick_defs ex_defs)
  have c3: "\<not> \<bar>posX (cone\<lparr>position := (2.2, 0.8, -1)\<rparr>) - playerPosX frame16\<bar> < 0.9"
    by (simp add: tick_defs ex_defs)
  show ?thesis
    using h1 h2 e g c c3
      hazard_hit_once [OF h1, of exampleConsts sprinting frame50 "[]"
         "[(sprinting, frame50), (sprinting, frame50), (running, frame16)]"]
      hazard_hit_once [OF h2, of exampleConsts running frame16 "[]" "[]"]
      hazard_hit_once [OF h3, of exampleConsts running frame16 "[]" "[]"]
    by simp
qed

end
